theory Spec2Isabelle
  imports Complex_Main
begin

section \<open>Data model of the knowledge bank service\<close>

text \<open>
  The embedding of \<^verbatim>\<open>research/carls/knowledge_bank_grpc_service.cc\<close>.
  An \<^verbatim>\<open>EmbeddingVectorProto\<close> is read as the list of its float values, idealised
  as reals. A \<^verbatim>\<open>grpc::Status\<close> is a code with a message.
\<close>

type_synonym EmbeddingVectorProto = "real list"

datatype StatusCode = OK | INVALID_ARGUMENT | INTERNAL

datatype Status = Status StatusCode string

fun code :: "Status \<Rightarrow> StatusCode" where
  "code (Status c m) = c"

fun error_message :: "Status \<Rightarrow> string" where
  "error_message (Status c m) = m"

definition Status_OK :: Status where
  "Status_OK = Status OK []"

definition ok :: "Status \<Rightarrow> bool" where
  "ok st = (code st = OK)"

text \<open>
  The protocol messages. The two configuration sub-messages are opaque to the service (it
  only hands them to the factories), so they are type parameters. An unset
  \<^verbatim>\<open>gradient_descent_config\<close> (\<^verbatim>\<open>has_gradient_descent_config()\<close> false) is \<open>None\<close>.
  A protobuf map field is the list of its entries in iteration order.
\<close>

record ('kc, 'gc) DynamicEmbeddingConfig =
  embedding_dimension :: int
  knowledge_bank_config :: 'kc
  gradient_descent_config :: "'gc option"

record ('kc, 'gc) StartSessionRequest =
  name :: string
  config :: "('kc, 'gc) DynamicEmbeddingConfig"

record LookupRequest =
  lookup_session_handle :: string
  lookup_key :: "string list"
  lookup_update :: bool

record UpdateRequest =
  update_session_handle :: string
  update_values :: "(string \<times> EmbeddingVectorProto) list"
  update_gradients :: "(string \<times> EmbeddingVectorProto) list"

text \<open>
  The collaborators the service calls and whose code is outside this file: the protobuf
  (de)serialisation of the start request, \<^verbatim>\<open>KnowledgeBankFactory::Make\<close>,
  \<^verbatim>\<open>GradientDescentOptimizer::Create\<close> (a null pointer is \<open>None\<close>), the virtual
  methods of \<^verbatim>\<open>KnowledgeBank\<close> and the optimizer's \<^verbatim>\<open>Apply\<close>. A
  \<^verbatim>\<open>variant<EmbeddingVectorProto, std::string>\<close> is a sum: \<open>Inl\<close> the vector,
  \<open>Inr\<close> the error text. Methods that may change their object return its new state;
  \<^verbatim>\<open>BatchLookup\<close> is the pure read.
\<close>

record ('kc, 'gc, 'kb, 'gd) collaborators =
  SerializeAsString :: "('kc, 'gc) StartSessionRequest \<Rightarrow> string"
  ParseFromString :: "string \<Rightarrow> ('kc, 'gc) StartSessionRequest"
  Make :: "'kc \<Rightarrow> int \<Rightarrow> 'kb option"
  Create :: "int \<Rightarrow> 'gc \<Rightarrow> 'gd option"
  BatchLookup :: "'kb \<Rightarrow> string list \<Rightarrow> (EmbeddingVectorProto + string) list"
  BatchLookupWithUpdate ::
    "'kb \<Rightarrow> string list \<Rightarrow> (EmbeddingVectorProto + string) list \<times> 'kb"
  BatchUpdate :: "'kb \<Rightarrow> string list \<Rightarrow> EmbeddingVectorProto list \<Rightarrow> 'kb"
  Apply :: "'gd \<Rightarrow> EmbeddingVectorProto list \<Rightarrow> EmbeddingVectorProto list
              \<Rightarrow> (EmbeddingVectorProto list \<times> string) \<times> 'gd"

text \<open>
  The two hash maps of \<^verbatim>\<open>KnowledgeBankGrpcServiceImpl\<close>, keyed by session handle.
  Calls are taken one at a time: the mutex \<^verbatim>\<open>map_mu_\<close> orders them and is not part
  of the state.
\<close>

record ('kb, 'gd) KnowledgeBankGrpcServiceImpl =
  es_map :: "string \<rightharpoonup> 'kb"
  gd_map :: "string \<rightharpoonup> 'gd"

section \<open>The service's operations\<close>

definition StartSessionIfNecessary ::
  "('kc, 'gc, 'kb, 'gd) collaborators \<Rightarrow> string \<Rightarrow> ('kb, 'gd) KnowledgeBankGrpcServiceImpl
     \<Rightarrow> Status \<times> ('kb, 'gd) KnowledgeBankGrpcServiceImpl" where
  "StartSessionIfNecessary E session_handle s =
     (let request = ParseFromString E session_handle;
          created =
            (if es_map s session_handle = None
             then (case Make E (knowledge_bank_config (config request))
                                (embedding_dimension (config request)) of
                     None \<Rightarrow> Inl (Status INTERNAL ''Creating KnowledgeBank failed.'')
                   | Some knowledge_bank \<Rightarrow>
                       Inr (s\<lparr>es_map := (es_map s)(session_handle \<mapsto> knowledge_bank)\<rparr>))
             else Inr s)
      in case created of
           Inl status \<Rightarrow> (status, s)
         | Inr s1 \<Rightarrow>
             (case gradient_descent_config (config request) of
                None \<Rightarrow> (Status_OK, s1)
              | Some gdc \<Rightarrow>
                  if gd_map s1 session_handle = None
                  then (case Create E (embedding_dimension (config request)) gdc of
                          None \<Rightarrow>
                            (Status INTERNAL ''Creating GradientDescentOptimizer failed.'', s1)
                        | Some optimizer \<Rightarrow>
                            (Status_OK,
                             s1\<lparr>gd_map := (gd_map s1)(session_handle \<mapsto> optimizer)\<rparr>))
                  else (Status_OK, s1)))"

text \<open>
  \<^verbatim>\<open>StartSession\<close>: the response's handle is set only on success (\<open>None\<close>: the
  response is left untouched).
\<close>

definition StartSession ::
  "('kc, 'gc, 'kb, 'gd) collaborators \<Rightarrow> ('kc, 'gc) StartSessionRequest
     \<Rightarrow> ('kb, 'gd) KnowledgeBankGrpcServiceImpl
     \<Rightarrow> Status \<times> string option \<times> ('kb, 'gd) KnowledgeBankGrpcServiceImpl" where
  "StartSession E request s =
     (if name request = [] then (Status INVALID_ARGUMENT ''Name is empty.'', None, s)
      else
        let session_handle = SerializeAsString E request in
        case StartSessionIfNecessary E session_handle s of
          (status, s1) \<Rightarrow>
            if \<not> ok status then (status, None, s1)
            else (Status_OK, Some session_handle, s1))"

text \<open>
  The loop of \<^verbatim>\<open>Lookup\<close> that fills the response's \<^verbatim>\<open>embedding_table\<close>: a
  position holding an error is skipped, a later position of the same key overwrites an
  earlier one. It runs only when both lists have the same length.
\<close>

fun fill_embedding_table ::
  "string list \<Rightarrow> (EmbeddingVectorProto + string) list
     \<Rightarrow> (string \<rightharpoonup> EmbeddingVectorProto) \<Rightarrow> (string \<rightharpoonup> EmbeddingVectorProto)" where
  "fill_embedding_table (k # ks) (v # vs) table =
     fill_embedding_table ks vs (case v of Inl e \<Rightarrow> table(k \<mapsto> e) | Inr err \<Rightarrow> table)"
| "fill_embedding_table ks vs table = table"

text \<open>
  \<^verbatim>\<open>es_map_[handle]->\<close> dereferences the stored pointer; it is reached only after
  \<^verbatim>\<open>StartSessionIfNecessary\<close> succeeded, which leaves the handle in the map
  (lemma \<open>StartSessionIfNecessary_ok_es_map\<close> below).
\<close>

definition deref :: "'a option \<Rightarrow> 'a" where
  "deref p = the p"

definition Lookup ::
  "('kc, 'gc, 'kb, 'gd) collaborators \<Rightarrow> LookupRequest
     \<Rightarrow> ('kb, 'gd) KnowledgeBankGrpcServiceImpl
     \<Rightarrow> Status \<times> (string \<rightharpoonup> EmbeddingVectorProto) \<times> ('kb, 'gd) KnowledgeBankGrpcServiceImpl"
  where
  "Lookup E request s =
     (if lookup_session_handle request = []
      then (Status INVALID_ARGUMENT ''session_handle is empty.'', Map.empty, s)
      else if lookup_key request = []
      then (Status INVALID_ARGUMENT ''Empty input keys.'', Map.empty, s)
      else
        case StartSessionIfNecessary E (lookup_session_handle request) s of
          (status, s1) \<Rightarrow>
            if \<not> ok status then (status, Map.empty, s1)
            else
              let keys = lookup_key request;
                  kb = deref (es_map s1 (lookup_session_handle request));
                  (value_or_errors, kb') =
                    (if lookup_update request then BatchLookupWithUpdate E kb keys
                     else (BatchLookup E kb keys, kb));
                  s2 = s1\<lparr>es_map := (es_map s1)(lookup_session_handle request \<mapsto> kb')\<rparr>
              in if length value_or_errors \<noteq> length keys
                 then (Status INTERNAL ''Inconsistent result returned by BatchLookup()'',
                       Map.empty, s2)
                 else (Status_OK, fill_embedding_table keys value_or_errors Map.empty, s2))"

text \<open>
  The loop of the gradient branch that collects \<^verbatim>\<open>valid_keys\<close> and
  \<^verbatim>\<open>embeddings\<close>: the positions whose fetch holds a vector, in key order.
\<close>

fun collect_valid ::
  "string list \<Rightarrow> (EmbeddingVectorProto + string) list
     \<Rightarrow> (string \<times> EmbeddingVectorProto) list" where
  "collect_valid (k # ks) (v # vs) =
     (case v of Inl e \<Rightarrow> (k, e) # collect_valid ks vs | Inr err \<Rightarrow> collect_valid ks vs)"
| "collect_valid ks vs = []"

text \<open>The block of \<^verbatim>\<open>Update\<close> guarded by \<^verbatim>\<open>!request->values().empty()\<close>.\<close>

definition values_branch ::
  "('kc, 'gc, 'kb, 'gd) collaborators \<Rightarrow> UpdateRequest
     \<Rightarrow> ('kb, 'gd) KnowledgeBankGrpcServiceImpl \<Rightarrow> ('kb, 'gd) KnowledgeBankGrpcServiceImpl"
  where
  "values_branch E request s =
     (let keys = map fst (update_values request);
          vals = map snd (update_values request);
          h = update_session_handle request
      in s\<lparr>es_map := (es_map s)(h \<mapsto> BatchUpdate E (deref (es_map s h)) keys vals)\<rparr>)"

text \<open>The block of \<^verbatim>\<open>Update\<close> guarded by \<^verbatim>\<open>!request->gradients().empty()\<close>.\<close>

definition gradients_branch ::
  "('kc, 'gc, 'kb, 'gd) collaborators \<Rightarrow> UpdateRequest
     \<Rightarrow> ('kb, 'gd) KnowledgeBankGrpcServiceImpl
     \<Rightarrow> Status \<times> ('kb, 'gd) KnowledgeBankGrpcServiceImpl" where
  "gradients_branch E request s =
     (let keys = map fst (update_gradients request);
          gradients = map snd (update_gradients request);
          h = update_session_handle request
      in case gd_map s h of
           None \<Rightarrow>
             (Status INTERNAL
                (''Optimizer is not created, did you forget to add '' @
                 ''gradient_descent_config in DynamicEmbeddingConfig?''), s)
         | Some optimizer \<Rightarrow>
             let kb = deref (es_map s h);
                 value_or_errors = BatchLookup E kb keys
             in if length value_or_errors \<noteq> length keys
                then (Status INTERNAL ''Inconsistent result returned by BatchLookup()'', s)
                else
                  let valid = collect_valid keys value_or_errors;
                      valid_keys = map fst valid;
                      embeddings = map snd valid
                  in if valid_keys = []
                     then (Status INTERNAL ''No valid keys for gradient update.'', s)
                     else
                       case Apply E optimizer embeddings gradients of
                         ((updated_embeddings, error_msg), optimizer') \<Rightarrow>
                           let s1 = s\<lparr>gd_map := (gd_map s)(h \<mapsto> optimizer')\<rparr>
                           in if updated_embeddings = []
                              then (Status INTERNAL
                                      (''Applying gradient update returned error: '' @
                                       error_msg), s1)
                              else (Status_OK,
                                    s1\<lparr>es_map := (es_map s1)
                                         (h \<mapsto> BatchUpdate E kb valid_keys
                                                  updated_embeddings)\<rparr>))"

definition Update ::
  "('kc, 'gc, 'kb, 'gd) collaborators \<Rightarrow> UpdateRequest
     \<Rightarrow> ('kb, 'gd) KnowledgeBankGrpcServiceImpl
     \<Rightarrow> Status \<times> ('kb, 'gd) KnowledgeBankGrpcServiceImpl" where
  "Update E request s =
     (if update_session_handle request = []
      then (Status INVALID_ARGUMENT ''session_handle is empty.'', s)
      else if update_values request = [] \<and> update_gradients request = []
      then (Status INVALID_ARGUMENT ''input is empty.'', s)
      else
        case StartSessionIfNecessary E (update_session_handle request) s of
          (status, s1) \<Rightarrow>
            if \<not> ok status then (status, s1)
            else
              let s2 = (if update_values request \<noteq> [] then values_branch E request s1
                        else s1)
              in if update_gradients request \<noteq> [] then gradients_branch E request s2
                 else (Status_OK, s2))"

definition KnowledgeBankSize :: "('kb, 'gd) KnowledgeBankGrpcServiceImpl \<Rightarrow> nat" where
  "KnowledgeBankSize s = card (dom (es_map s))"

section \<open>The embedding store and the optimizer, from the specification\<close>

text \<open>
  Modelled from the spec: the EmbeddingStore (the \<^verbatim>\<open>KnowledgeBank\<close> implementations
  and their factory are not among the sources). The spec describes a per-session
  key-to-vector container with a batched get that yields a per-key success or error, a
  batched get that creates a missing key zero-initialised, and a batched put that
  overwrites; the configuration selects the backend by a tagged field, and construction
  fails when none is selected.
\<close>

datatype Backend = InProtoKnowledgeBankConfig

type_synonym KnowledgeBankConfig = "Backend option"

record InProtoKnowledgeBank =
  kb_dimension :: int
  kb_table :: "string \<rightharpoonup> EmbeddingVectorProto"

definition zero_vector :: "int \<Rightarrow> EmbeddingVectorProto" where
  "zero_vector d = replicate (nat d) 0"

definition kb_Make :: "KnowledgeBankConfig \<Rightarrow> int \<Rightarrow> InProtoKnowledgeBank option" where
  "kb_Make kbc d =
     (case kbc of
        None \<Rightarrow> None
      | Some InProtoKnowledgeBankConfig \<Rightarrow> Some \<lparr>kb_dimension = d, kb_table = Map.empty\<rparr>)"

definition kb_BatchLookup ::
  "InProtoKnowledgeBank \<Rightarrow> string list \<Rightarrow> (EmbeddingVectorProto + string) list" where
  "kb_BatchLookup kb keys =
     map (\<lambda>k. case kb_table kb k of None \<Rightarrow> Inr ''Data not found'' | Some v \<Rightarrow> Inl v) keys"

fun kb_BatchLookupWithUpdate ::
  "InProtoKnowledgeBank \<Rightarrow> string list
     \<Rightarrow> (EmbeddingVectorProto + string) list \<times> InProtoKnowledgeBank" where
  "kb_BatchLookupWithUpdate kb [] = ([], kb)"
| "kb_BatchLookupWithUpdate kb (k # ks) =
     (case kb_table kb k of
        Some v \<Rightarrow>
          (case kb_BatchLookupWithUpdate kb ks of (rs, kb') \<Rightarrow> (Inl v # rs, kb'))
      | None \<Rightarrow>
          (case kb_BatchLookupWithUpdate
                  (kb\<lparr>kb_table := (kb_table kb)(k \<mapsto> zero_vector (kb_dimension kb))\<rparr>) ks of
             (rs, kb') \<Rightarrow> (Inl (zero_vector (kb_dimension kb)) # rs, kb')))"

fun put_all ::
  "string list \<Rightarrow> EmbeddingVectorProto list \<Rightarrow> (string \<rightharpoonup> EmbeddingVectorProto)
     \<Rightarrow> (string \<rightharpoonup> EmbeddingVectorProto)" where
  "put_all (k # ks) (v # vs) table = put_all ks vs (table(k \<mapsto> v))"
| "put_all ks vs table = table"

definition kb_BatchUpdate ::
  "InProtoKnowledgeBank \<Rightarrow> string list \<Rightarrow> EmbeddingVectorProto list \<Rightarrow> InProtoKnowledgeBank"
  where
  "kb_BatchUpdate kb keys vals = kb\<lparr>kb_table := put_all keys vals (kb_table kb)\<rparr>"

text \<open>
  The optimizer (\<^verbatim>\<open>GradientDescentOptimizer\<close> is not among the sources) stays a
  parameter: the spec gives its contract only (from a batch of current vectors and
  matching gradients it returns updated vectors or a descriptive failure) and leaves its
  numeric rule out. Its configuration carries the learning rate, as the test's
  \<^verbatim>\<open>gradient_descent_config { learning_rate: 0.1 sgd {} }\<close> has it.
\<close>

record GradientDescentConfig =
  learning_rate :: real

text \<open>
  The service over the store above. The wire encoding of the start request and the
  optimizer are outside the model and stay parameters.
\<close>

definition carls ::
  "((KnowledgeBankConfig, 'gc) StartSessionRequest \<Rightarrow> string)
     \<Rightarrow> (string \<Rightarrow> (KnowledgeBankConfig, 'gc) StartSessionRequest)
     \<Rightarrow> (int \<Rightarrow> 'gc \<Rightarrow> 'gd option)
     \<Rightarrow> ('gd \<Rightarrow> EmbeddingVectorProto list \<Rightarrow> EmbeddingVectorProto list
           \<Rightarrow> (EmbeddingVectorProto list \<times> string) \<times> 'gd)
     \<Rightarrow> (KnowledgeBankConfig, 'gc, InProtoKnowledgeBank, 'gd) collaborators" where
  "carls ser par cr ap =
     \<lparr>SerializeAsString = ser, ParseFromString = par, Make = kb_Make, Create = cr,
      BatchLookup = kb_BatchLookup, BatchLookupWithUpdate = kb_BatchLookupWithUpdate,
      BatchUpdate = kb_BatchUpdate, Apply = ap\<rparr>"

section \<open>The client-side batch manager, from the specification\<close>

text \<open>
  Modelled from the spec: the batch manager \<^verbatim>\<open>DynamicEmbeddingManager\<close>
  (\<^verbatim>\<open>dynamic_embedding_manager.cc\<close> is not among the sources, only its test is).
  A tensor is its shape with its elements in row-major order.
\<close>

record 'a Tensor =
  shape :: "nat list"
  flat :: "'a list"

definition NumElements :: "'a Tensor \<Rightarrow> nat" where
  "NumElements t = prod_list (shape t)"

text \<open>
  Modelled from the spec: the number of vectors of a values batch (its outer, non-trailing
  element count), the length of its trailing axis, and its vectors in order.
\<close>

definition outer_count :: "'a Tensor \<Rightarrow> nat" where
  "outer_count t = prod_list (butlast (shape t))"

definition trailing_dim :: "'a Tensor \<Rightarrow> nat" where
  "trailing_dim t = (case shape t of [] \<Rightarrow> 0 | d # ds \<Rightarrow> last (d # ds))"

definition rows :: "nat \<Rightarrow> nat \<Rightarrow> 'a list \<Rightarrow> 'a list list" where
  "rows n d xs = map (\<lambda>i. take d (drop (i * d) xs)) [0..<n]"

text \<open>Modelled from the spec: the decimal text of a number, as the messages print it.\<close>

definition digit_char :: "nat \<Rightarrow> char" where
  "digit_char d = ''0123456789'' ! d"

fun decimal :: "nat \<Rightarrow> string" where
  "decimal n =
     (if 10 \<le> n then decimal (n div 10) @ [digit_char (n mod 10)]
      else [digit_char n])"

declare decimal.simps [simp del]

definition signed_decimal :: "int \<Rightarrow> string" where
  "signed_decimal i = (if 0 \<le> i then decimal (nat i) else CHR ''-'' # decimal (nat (- i)))"

record ('kc, 'gc) DynamicEmbeddingManager =
  dem_config :: "('kc, 'gc) DynamicEmbeddingConfig"
  dem_name :: string
  dem_session_handle :: string

text \<open>
  Modelled from the spec: the manager's \<^verbatim>\<open>Lookup\<close>. One RPC for the flattened
  keys; every key without a resolved vector, and every empty-string key, gets the zero
  vector at its position.
\<close>

definition resolve ::
  "int \<Rightarrow> (string \<rightharpoonup> EmbeddingVectorProto) \<Rightarrow> string \<Rightarrow> EmbeddingVectorProto" where
  "resolve d table k =
     (if k = [] then zero_vector d
      else case table k of None \<Rightarrow> zero_vector d | Some v \<Rightarrow> v)"

definition dem_Lookup ::
  "('kc, 'gc, 'kb, 'gd) collaborators \<Rightarrow> ('kc, 'gc) DynamicEmbeddingManager
     \<Rightarrow> string Tensor \<Rightarrow> bool \<Rightarrow> ('kb, 'gd) KnowledgeBankGrpcServiceImpl
     \<Rightarrow> Status \<times> real Tensor option \<times> ('kb, 'gd) KnowledgeBankGrpcServiceImpl" where
  "dem_Lookup E m keys upd s =
     (if NumElements keys = 0 then (Status INVALID_ARGUMENT ''No input.'', None, s)
      else
        case Lookup E \<lparr>lookup_session_handle = dem_session_handle m,
                       lookup_key = flat keys, lookup_update = upd\<rparr> s of
          (status, table, s1) \<Rightarrow>
            if \<not> ok status then (status, None, s1)
            else
              let d = embedding_dimension (dem_config m)
              in (Status_OK,
                  Some \<lparr>shape = shape keys @ [nat d],
                        flat = concat (map (resolve d table) (flat keys))\<rparr>,
                  s1))"

text \<open>
  Modelled from the spec: the shape and dimension checks shared by \<^verbatim>\<open>UpdateValues\<close> and
  \<^verbatim>\<open>UpdateGradients\<close>, in the order the spec lists them, with the message texts the
  test asserts on. \<open>None\<close>: the batch is accepted.
\<close>

definition validate_batch ::
  "('kc, 'gc) DynamicEmbeddingManager \<Rightarrow> string Tensor \<Rightarrow> real Tensor \<Rightarrow> Status option"
  where
  "validate_batch m keys vals =
     (if NumElements keys = 0 then Some (Status INVALID_ARGUMENT ''Input key is empty.'')
      else if NumElements keys \<noteq> outer_count vals
      then Some (Status INVALID_ARGUMENT
                   (''Inconsistent keys size and values size: '' @
                    decimal (NumElements keys) @ '' v.s. '' @
                    decimal (outer_count vals)))
      else if int (trailing_dim vals) \<noteq> embedding_dimension (dem_config m)
      then Some (Status INVALID_ARGUMENT
                   (''Inconsistent embedding dimension, got '' @
                    decimal (trailing_dim vals) @ '' expect '' @
                    signed_decimal (embedding_dimension (dem_config m))))
      else None)"

text \<open>
  Modelled from the spec: the request's key-to-vector map of \<^verbatim>\<open>UpdateValues\<close> and
  \<^verbatim>\<open>UpdateGradients\<close>, sent in one \<^verbatim>\<open>Update\<close> RPC. It holds the entries in
  the order the keys first occur, a later vector of the same key replacing the earlier
  one, the empty-string key left out.
\<close>

fun map_insert :: "string \<Rightarrow> 'v \<Rightarrow> (string \<times> 'v) list \<Rightarrow> (string \<times> 'v) list" where
  "map_insert k v [] = [(k, v)]"
| "map_insert k v ((k', v') # m) =
     (if k = k' then (k, v) # m else (k', v') # map_insert k v m)"

fun build_map ::
  "string list \<Rightarrow> 'v list \<Rightarrow> (string \<times> 'v) list \<Rightarrow> (string \<times> 'v) list" where
  "build_map (k # ks) (v # vs) m =
     build_map ks vs (if k = [] then m else map_insert k v m)"
| "build_map ks vs m = m"

definition dem_UpdateValues ::
  "('kc, 'gc, 'kb, 'gd) collaborators \<Rightarrow> ('kc, 'gc) DynamicEmbeddingManager
     \<Rightarrow> string Tensor \<Rightarrow> real Tensor \<Rightarrow> ('kb, 'gd) KnowledgeBankGrpcServiceImpl
     \<Rightarrow> Status \<times> ('kb, 'gd) KnowledgeBankGrpcServiceImpl" where
  "dem_UpdateValues E m keys vals s =
     (case validate_batch m keys vals of
        Some status \<Rightarrow> (status, s)
      | None \<Rightarrow>
          Update E \<lparr>update_session_handle = dem_session_handle m,
                    update_values =
                      build_map (flat keys)
                        (rows (NumElements keys) (trailing_dim vals) (flat vals)) [],
                    update_gradients = []\<rparr> s)"

definition dem_UpdateGradients ::
  "('kc, 'gc, 'kb, 'gd) collaborators \<Rightarrow> ('kc, 'gc) DynamicEmbeddingManager
     \<Rightarrow> string Tensor \<Rightarrow> real Tensor \<Rightarrow> ('kb, 'gd) KnowledgeBankGrpcServiceImpl
     \<Rightarrow> Status \<times> ('kb, 'gd) KnowledgeBankGrpcServiceImpl" where
  "dem_UpdateGradients E m keys grads s =
     (case validate_batch m keys grads of
        Some status \<Rightarrow> (status, s)
      | None \<Rightarrow>
          Update E \<lparr>update_session_handle = dem_session_handle m,
                    update_values = [],
                    update_gradients =
                      build_map (flat keys)
                        (rows (NumElements keys) (trailing_dim grads) (flat grads)) []\<rparr> s)"

text \<open>
  Modelled from the spec: the manager's \<^verbatim>\<open>Export\<close> and \<^verbatim>\<open>Import\<close> (neither
  they nor the store's serialisation are among the sources). The snapshot files are a map from path to the
  session's store and optimizer. Export writes the session's state under
  \<^verbatim>\<open>{directory}/{name}/embedding_store_meta_data.pbtxt\<close> and returns that path; Import
  replaces the session's state by the snapshot at the path.
\<close>

type_synonym ('kb, 'gd) files = "string \<rightharpoonup> ('kb \<times> 'gd option)"

definition export_path :: "string \<Rightarrow> string \<Rightarrow> string" where
  "export_path directory nm = directory @ ''/'' @ nm @ ''/embedding_store_meta_data.pbtxt''"

definition dem_Export ::
  "('kc, 'gc) DynamicEmbeddingManager \<Rightarrow> string
     \<Rightarrow> ('kb, 'gd) KnowledgeBankGrpcServiceImpl \<times> ('kb, 'gd) files
     \<Rightarrow> Status \<times> string option
         \<times> ('kb, 'gd) KnowledgeBankGrpcServiceImpl \<times> ('kb, 'gd) files" where
  "dem_Export m directory st =
     (case st of (s, fs) \<Rightarrow>
        (case es_map s (dem_session_handle m) of
           None \<Rightarrow> (Status INTERNAL ''No embedding store to export.'', None, s, fs)
         | Some kb \<Rightarrow>
             let path = export_path directory (dem_name m)
             in (Status_OK, Some path, s,
                 fs(path \<mapsto> (kb, gd_map s (dem_session_handle m))))))"

definition dem_Import ::
  "('kc, 'gc) DynamicEmbeddingManager \<Rightarrow> string
     \<Rightarrow> ('kb, 'gd) KnowledgeBankGrpcServiceImpl \<times> ('kb, 'gd) files
     \<Rightarrow> Status \<times> ('kb, 'gd) KnowledgeBankGrpcServiceImpl \<times> ('kb, 'gd) files" where
  "dem_Import m path st =
     (case st of (s, fs) \<Rightarrow>
        (case fs path of
           None \<Rightarrow> (Status INTERNAL ''No snapshot to import.'', s, fs)
         | Some (kb, gd) \<Rightarrow>
             (Status_OK,
              s\<lparr>es_map := (es_map s)(dem_session_handle m \<mapsto> kb),
                gd_map := (gd_map s)(dem_session_handle m := gd)\<rparr>, fs)))"

section \<open>The fixture of the tests\<close>

text \<open>
  \<^verbatim>\<open>BuildConfig\<close> of the test file, a service that holds no session yet, and, for
  concrete runs, a wire encoding that carries the name and reads every handle with one
  fixed configuration, with a stand-in optimizer that moves nothing and keeps, as its
  state, the list of argument pairs \<^verbatim>\<open>Apply\<close> was called with.
\<close>

type_synonym calls = "(EmbeddingVectorProto list \<times> EmbeddingVectorProto list) list"

definition BuildConfig ::
  "int \<Rightarrow> real \<Rightarrow> (KnowledgeBankConfig, GradientDescentConfig) DynamicEmbeddingConfig" where
  "BuildConfig dimension lr =
     \<lparr>embedding_dimension = dimension,
      knowledge_bank_config = Some InProtoKnowledgeBankConfig,
      gradient_descent_config = Some \<lparr>learning_rate = lr\<rparr>\<rparr>"

definition no_sessions :: "(InProtoKnowledgeBank, calls) KnowledgeBankGrpcServiceImpl" where
  "no_sessions = \<lparr>es_map = Map.empty, gd_map = Map.empty\<rparr>"

definition fixture ::
  "(KnowledgeBankConfig, GradientDescentConfig) DynamicEmbeddingConfig
     \<Rightarrow> (KnowledgeBankConfig, GradientDescentConfig, InProtoKnowledgeBank, calls)
          collaborators" where
  "fixture cfg =
     carls name (\<lambda>h. \<lparr>name = h, config = cfg\<rparr>) (\<lambda>d gdc. Some [])
       (\<lambda>calls variables gradients. ((variables, []), calls @ [(variables, gradients)]))"

text \<open>
  The test's session: name \<^verbatim>\<open>emb\<close>, dimension 2, learning rate 0.1, and the service
  state in which that session holds a given table.
\<close>

definition test_env ::
  "(KnowledgeBankConfig, GradientDescentConfig, InProtoKnowledgeBank, calls) collaborators"
  where
  "test_env = fixture (BuildConfig 2 (1 / 10))"

definition emb_session ::
  "(string \<rightharpoonup> EmbeddingVectorProto)
     \<Rightarrow> (InProtoKnowledgeBank, calls) KnowledgeBankGrpcServiceImpl" where
  "emb_session table =
     \<lparr>es_map = [''emb'' \<mapsto> \<lparr>kb_dimension = 2, kb_table = table\<rparr>],
      gd_map = [''emb'' \<mapsto> []]\<rparr>"

definition emb_manager ::
  "(KnowledgeBankConfig, GradientDescentConfig) DynamicEmbeddingManager" where
  "emb_manager =
     \<lparr>dem_config = BuildConfig 2 (1 / 10), dem_name = ''emb'', dem_session_handle = ''emb''\<rparr>"

text \<open>The key and vector batches of the tests.\<close>

definition keys_1D :: "string Tensor" where
  "keys_1D = \<lparr>shape = [3], flat = [''first'', ''second'', ''third'']\<rparr>"

definition grads_1D :: "real Tensor" where
  "grads_1D = \<lparr>shape = [3, 2], flat = [1, 2, 3, 4, 5, 6]\<rparr>"

definition keys_2D :: "string Tensor" where
  "keys_2D = \<lparr>shape = [2, 2], flat = [''first'', ''second'', ''third'', []]\<rparr>"

definition values_2D :: "real Tensor" where
  "values_2D = \<lparr>shape = [2, 2, 2], flat = [0, 1, 2, 3, 4, 5, 6, 7]\<rparr>"

definition written_table :: "string \<rightharpoonup> EmbeddingVectorProto" where
  "written_table = [''first'' \<mapsto> [0, 1], ''second'' \<mapsto> [2, 3], ''third'' \<mapsto> [4, 5]]"

definition overwritten_table :: "string \<rightharpoonup> EmbeddingVectorProto" where
  "overwritten_table = [''first'' \<mapsto> [1, 2], ''second'' \<mapsto> [3, 4], ''third'' \<mapsto> [5, 6]]"

text \<open>
  A configuration that selects no backend; an optimizer that cannot be built, and the
  states in which the session has its store and no optimizer.
\<close>

definition no_backend_config ::
  "(KnowledgeBankConfig, GradientDescentConfig) DynamicEmbeddingConfig" where
  "no_backend_config =
     \<lparr>embedding_dimension = 2, knowledge_bank_config = None, gradient_descent_config = None\<rparr>"

definition store_only ::
  "(string \<rightharpoonup> EmbeddingVectorProto)
     \<Rightarrow> (InProtoKnowledgeBank, calls) KnowledgeBankGrpcServiceImpl" where
  "store_only table =
     \<lparr>es_map = [''emb'' \<mapsto> \<lparr>kb_dimension = 2, kb_table = table\<rparr>], gd_map = Map.empty\<rparr>"

definition store_only_session :: "(InProtoKnowledgeBank, calls) KnowledgeBankGrpcServiceImpl"
  where
  "store_only_session = store_only Map.empty"

definition failing_optimizer_env ::
  "(KnowledgeBankConfig, GradientDescentConfig, InProtoKnowledgeBank, calls) collaborators"
  where
  "failing_optimizer_env = test_env\<lparr>Create := \<lambda>d gdc. None\<rparr>"

text \<open>The same stand-in optimizer, and the session of it that has been called before.\<close>

definition recording_env ::
  "(KnowledgeBankConfig, GradientDescentConfig, InProtoKnowledgeBank, calls) collaborators"
  where
  "recording_env =
     \<lparr>SerializeAsString = name,
      ParseFromString = (\<lambda>h. \<lparr>name = h, config = BuildConfig 2 (1 / 10)\<rparr>),
      Make = kb_Make, Create = (\<lambda>d gdc. Some []),
      BatchLookup = kb_BatchLookup, BatchLookupWithUpdate = kb_BatchLookupWithUpdate,
      BatchUpdate = kb_BatchUpdate,
      Apply = (\<lambda>calls variables gradients. ((variables, []), calls @ [(variables, gradients)]))\<rparr>"

definition recording_session ::
  "(string \<rightharpoonup> EmbeddingVectorProto) \<Rightarrow> calls
     \<Rightarrow> (InProtoKnowledgeBank, calls) KnowledgeBankGrpcServiceImpl" where
  "recording_session table calls =
     \<lparr>es_map = [''emb'' \<mapsto> \<lparr>kb_dimension = 2, kb_table = table\<rparr>],
      gd_map = [''emb'' \<mapsto> calls]\<rparr>"

section \<open>Session creation\<close>

lemma StartSessionIfNecessary_ok_es_map:
  assumes "StartSessionIfNecessary E h s = (st, s')" and "ok st"
  shows "es_map s' h \<noteq> None"
  using assms
  by (auto simp: StartSessionIfNecessary_def Let_def ok_def Status_OK_def
           split: if_splits option.splits)

lemma StartSessionIfNecessary_code:
  assumes "StartSessionIfNecessary E h s = (st, s')"
  shows "code st = OK \<or> code st = INTERNAL"
  using assms
  by (auto simp: StartSessionIfNecessary_def Let_def Status_OK_def
           split: if_splits option.splits)

lemmas fixture_defs = keys_1D_def grads_1D_def keys_2D_def values_2D_def
  store_only_def
  recording_env_def recording_session_def store_only_session_def
  test_env_def fixture_def carls_def BuildConfig_def emb_session_def
  emb_manager_def no_sessions_def no_backend_config_def failing_optimizer_env_def
  kb_Make_def ok_def Status_OK_def Let_def

lemma StartSessionIfNecessary_existing:
  assumes "es_map s h \<noteq> None"
    and "gradient_descent_config (config (ParseFromString E h)) = None \<or> gd_map s h \<noteq> None"
  shows "StartSessionIfNecessary E h s = (Status_OK, s)"
  using assms
  by (auto simp: StartSessionIfNecessary_def Let_def split: option.splits)

lemma StartSessionIfNecessary_ok_gd_map:
  assumes "StartSessionIfNecessary E h s = (st, s')" and "ok st"
  shows "gradient_descent_config (config (ParseFromString E h)) = None \<or> gd_map s' h \<noteq> None"
  using assms
  by (auto simp: StartSessionIfNecessary_def Let_def ok_def Status_OK_def
           split: if_splits option.splits)

section \<open>Starting a session twice\<close>

text \<open>
  Claim C2, as the code has it. \<^verbatim>\<open>StartSession\<close> can fail for a non-empty name: when
  the factory builds no knowledge bank the call returns an internal error and no handle.
  When the first call succeeds, it returns the serialised request as the handle and
  leaves the handle's store registered and its optimizer present (or not configured).
  In every state of that kind, whatever the store has learnt since, a call with the same
  request succeeds, returns the same handle and returns the registry as it was: no store
  and no optimizer is built or replaced.
\<close>

theorem StartSession_idempotent:
  assumes "StartSession E request s = (st, response, s1)" and "ok st"
    and "h = SerializeAsString E request"
  shows "st = Status_OK \<and> response = Some h
    \<and> StartSession E request s1 = (Status_OK, Some h, s1)
    \<and> es_map s1 h \<noteq> None
    \<and> (gradient_descent_config (config (ParseFromString E h)) = None \<or> gd_map s1 h \<noteq> None)
    \<and> (\<forall>s2. es_map s2 h \<noteq> None
              \<and> (gradient_descent_config (config (ParseFromString E h)) = None
                  \<or> gd_map s2 h \<noteq> None)
            \<longrightarrow> StartSession E request s2 = (Status_OK, Some h, s2))"
proof -
  have nm: "name request \<noteq> []"
    using assms by (auto simp: StartSession_def ok_def)
  obtain st0 s0 where ss: "StartSessionIfNecessary E h s = (st0, s0)"
    by (cases "StartSessionIfNecessary E h s")
  have ok0: "ok st0" and s0: "s0 = s1" and st: "st = Status_OK"
    and r: "response = Some h"
    using assms nm ss by (auto simp: StartSession_def Let_def split: if_splits)
  have es: "es_map s1 h \<noteq> None"
    using StartSessionIfNecessary_ok_es_map [OF ss ok0] s0 by simp
  have gd: "gradient_descent_config (config (ParseFromString E h)) = None \<or> gd_map s1 h \<noteq> None"
    using StartSessionIfNecessary_ok_gd_map [OF ss ok0] s0 by simp
  have again: "StartSession E request s2 = (Status_OK, Some h, s2)"
    if "es_map s2 h \<noteq> None
          \<and> (gradient_descent_config (config (ParseFromString E h)) = None
              \<or> gd_map s2 h \<noteq> None)" for s2
  proof -
    from that have "StartSessionIfNecessary E h s2 = (Status_OK, s2)"
      by (intro StartSessionIfNecessary_existing) simp_all
    then show ?thesis
      using nm assms(3) by (simp add: StartSession_def Let_def ok_def Status_OK_def)
  qed
  from again [of s1] es gd have "StartSession E request s1 = (Status_OK, Some h, s1)"
    by simp
  with st r es gd again show ?thesis by blast
qed

theorem StartSession_idempotent_witness:
  "StartSession test_env \<lparr>name = ''emb'', config = BuildConfig 2 (1 / 10)\<rparr> no_sessions
     = (Status_OK, Some ''emb'', emb_session Map.empty)
   \<and> StartSession test_env \<lparr>name = ''emb'', config = BuildConfig 2 (1 / 10)\<rparr>
        (emb_session Map.empty)
     = (Status_OK, Some ''emb'', emb_session Map.empty)
   \<and> StartSession test_env \<lparr>name = ''emb'', config = BuildConfig 2 (1 / 10)\<rparr>
        (emb_session written_table)
     = (Status_OK, Some ''emb'', emb_session written_table)"
proof -
  let ?req = "\<lparr>name = ''emb'', config = BuildConfig 2 (1 / 10)\<rparr>"
  have first: "StartSession test_env ?req no_sessions
                 = (Status_OK, Some ''emb'', emb_session Map.empty)"
    by (simp add: StartSession_def StartSessionIfNecessary_def fixture_defs)
  have okay: "ok Status_OK" by (simp add: ok_def Status_OK_def)
  have h: "''emb'' = SerializeAsString test_env ?req" by (simp add: fixture_defs)
  note inst = StartSession_idempotent [OF first okay h]
  have learnt: "es_map (emb_session written_table) ''emb'' \<noteq> None
          \<and> (gradient_descent_config (config (ParseFromString test_env ''emb'')) = None
              \<or> gd_map (emb_session written_table) ''emb'' \<noteq> None)"
    by (simp add: emb_session_def)
  from inst learnt have later: "StartSession test_env ?req (emb_session written_table)
     = (Status_OK, Some ''emb'', emb_session written_table)"
    by blast
  from inst have second: "StartSession test_env ?req (emb_session Map.empty)
     = (Status_OK, Some ''emb'', emb_session Map.empty)"
    by blast
  from first second later show ?thesis by blast
qed

text \<open>
  The claim as written (every request with a non-empty name succeeds) fails for a
  configuration that selects no backend.
\<close>

theorem StartSession_twice_counterexample:
  "name \<lparr>name = ''emb'', config = no_backend_config\<rparr> \<noteq> [] \<and>
   StartSession (fixture no_backend_config) \<lparr>name = ''emb'', config = no_backend_config\<rparr> no_sessions
     = (Status INTERNAL ''Creating KnowledgeBank failed.'', None, no_sessions)"
  by (simp add: StartSession_def StartSessionIfNecessary_def fixture_defs)

section \<open>A store registered without its optimizer\<close>

text \<open>
  Claim C10. When a handle is new, the knowledge bank is built and the optimizer is not,
  \<^verbatim>\<open>StartSessionIfNecessary\<close> returns the internal error with the new store already
  registered, and so do \<^verbatim>\<open>StartSession\<close>, \<^verbatim>\<open>Lookup\<close> and \<^verbatim>\<open>Update\<close> when they
  trigger the creation. The size query counts the session. A later call for the handle
  builds no store: whatever store is registered under the handle stays as it is, and
  while the optimizer is missing the call fails again on the optimizer.
\<close>

theorem optimizer_failure_keeps_store:
  assumes "es_map s h = None" and "gd_map s h = None"
    and "Make E (knowledge_bank_config (config (ParseFromString E h)))
                (embedding_dimension (config (ParseFromString E h))) = Some kb"
    and "gradient_descent_config (config (ParseFromString E h)) = Some gdc"
    and "Create E (embedding_dimension (config (ParseFromString E h))) gdc = None"
    and "finite (dom (es_map s))"
    and "s' = s\<lparr>es_map := (es_map s)(h \<mapsto> kb)\<rparr>"
    and "failed = Status INTERNAL ''Creating GradientDescentOptimizer failed.''"
  shows "StartSessionIfNecessary E h s = (failed, s')
    \<and> (\<forall>request. name request \<noteq> [] \<and> SerializeAsString E request = h
           \<longrightarrow> StartSession E request s = (failed, None, s'))
    \<and> (\<forall>request. lookup_session_handle request = h \<and> h \<noteq> [] \<and> lookup_key request \<noteq> []
           \<longrightarrow> Lookup E request s = (failed, Map.empty, s'))
    \<and> (\<forall>request. update_session_handle request = h \<and> h \<noteq> []
            \<and> (update_values request \<noteq> [] \<or> update_gradients request \<noteq> [])
           \<longrightarrow> Update E request s = (failed, s'))
    \<and> es_map s' h = Some kb
    \<and> KnowledgeBankSize s' = Suc (KnowledgeBankSize s)
    \<and> StartSessionIfNecessary E h s' = (failed, s')
    \<and> (\<forall>s2. es_map s2 h \<noteq> None \<and> gd_map s2 h = None
           \<longrightarrow> StartSessionIfNecessary E h s2 = (failed, s2))
    \<and> (\<forall>s2. es_map s2 h \<noteq> None
           \<longrightarrow> es_map (snd (StartSessionIfNecessary E h s2)) = es_map s2)"
proof -
  have first: "StartSessionIfNecessary E h s = (failed, s')"
    using assms by (simp add: StartSessionIfNecessary_def Let_def)
  have nok: "\<not> ok failed"
    using assms by (simp add: ok_def)
  have kept: "StartSessionIfNecessary E h s2 = (failed, s2)"
    if "es_map s2 h \<noteq> None \<and> gd_map s2 h = None" for s2
    using that assms(4,5,8) by (auto simp: StartSessionIfNecessary_def Let_def)
  have store: "es_map (snd (StartSessionIfNecessary E h s2)) = es_map s2"
    if "es_map s2 h \<noteq> None" for s2
    using that
    by (auto simp: StartSessionIfNecessary_def Let_def split: option.splits)
  have again: "StartSessionIfNecessary E h s' = (failed, s')"
    using kept [of s'] assms(2,7) by simp
  have size: "KnowledgeBankSize s' = Suc (KnowledgeBankSize s)"
    using assms by (simp add: KnowledgeBankSize_def domIff)
  have start: "StartSession E request s = (failed, None, s')"
    if "name request \<noteq> [] \<and> SerializeAsString E request = h" for request
    using that first nok by (simp add: StartSession_def Let_def)
  have look: "Lookup E request s = (failed, Map.empty, s')"
    if "lookup_session_handle request = h \<and> h \<noteq> [] \<and> lookup_key request \<noteq> []" for request
    using that first nok by (auto simp: Lookup_def)
  have upd: "Update E request s = (failed, s')"
    if "update_session_handle request = h \<and> h \<noteq> []
            \<and> (update_values request \<noteq> [] \<or> update_gradients request \<noteq> [])" for request
    using that first nok by (auto simp: Update_def)
  have reg: "es_map s' h = Some kb"
    using assms(7) by simp
  from first start look upd reg size again kept store show ?thesis
    by blast
qed

theorem optimizer_failure_keeps_store_witness:
  "StartSessionIfNecessary failing_optimizer_env ''emb'' no_sessions
     = (Status INTERNAL ''Creating GradientDescentOptimizer failed.'', store_only_session)
   \<and> StartSession failing_optimizer_env \<lparr>name = ''emb'', config = BuildConfig 2 (1/10)\<rparr> no_sessions
     = (Status INTERNAL ''Creating GradientDescentOptimizer failed.'', None, store_only_session)
   \<and> Lookup failing_optimizer_env
        \<lparr>lookup_session_handle = ''emb'', lookup_key = [''first''], lookup_update = True\<rparr> no_sessions
     = (Status INTERNAL ''Creating GradientDescentOptimizer failed.'', Map.empty,
        store_only_session)
   \<and> Update failing_optimizer_env
        \<lparr>update_session_handle = ''emb'', update_values = [(''first'', [1, 2])],
         update_gradients = []\<rparr> no_sessions
     = (Status INTERNAL ''Creating GradientDescentOptimizer failed.'', store_only_session)
   \<and> KnowledgeBankSize no_sessions = 0
   \<and> KnowledgeBankSize store_only_session = 1
   \<and> StartSessionIfNecessary failing_optimizer_env ''emb'' store_only_session
     = (Status INTERNAL ''Creating GradientDescentOptimizer failed.'', store_only_session)
   \<and> StartSessionIfNecessary failing_optimizer_env ''emb'' (store_only written_table)
     = (Status INTERNAL ''Creating GradientDescentOptimizer failed.'', store_only written_table)
   \<and> es_map (snd (StartSessionIfNecessary failing_optimizer_env ''emb''
                      (emb_session written_table)))
     = es_map (emb_session written_table)"
proof -
  let ?E = failing_optimizer_env
  let ?kb = "\<lparr>kb_dimension = 2, kb_table = Map.empty\<rparr>"
  have h1: "es_map no_sessions ''emb'' = None" and h2: "gd_map no_sessions ''emb'' = None"
    and h6: "finite (dom (es_map no_sessions))"
    by (simp_all add: no_sessions_def)
  have h3: "Make ?E (knowledge_bank_config (config (ParseFromString ?E ''emb'')))
                (embedding_dimension (config (ParseFromString ?E ''emb''))) = Some ?kb"
    by (simp add: fixture_defs)
  have h4: "gradient_descent_config (config (ParseFromString ?E ''emb''))
              = Some \<lparr>learning_rate = 1 / 10\<rparr>"
    by (simp add: fixture_defs)
  have h5: "Create ?E (embedding_dimension (config (ParseFromString ?E ''emb'')))
              \<lparr>learning_rate = 1 / 10\<rparr> = None"
    by (simp add: fixture_defs)
  have h7: "store_only_session = no_sessions\<lparr>es_map := (es_map no_sessions)(''emb'' \<mapsto> ?kb)\<rparr>"
    by (simp add: store_only_session_def store_only_def no_sessions_def)
  have k0: "KnowledgeBankSize no_sessions = 0"
    by (simp add: KnowledgeBankSize_def no_sessions_def)
  note inst = optimizer_failure_keeps_store [OF h1 h2 h3 h4 h5 h6 h7 refl]
  have a: "name \<lparr>name = ''emb'', config = BuildConfig 2 (1/10)\<rparr> \<noteq> [] \<and>
     SerializeAsString ?E \<lparr>name = ''emb'', config = BuildConfig 2 (1/10)\<rparr> = ''emb''"
    by (simp add: fixture_defs)
  have b: "es_map (store_only written_table) ''emb'' \<noteq> None
             \<and> gd_map (store_only written_table) ''emb'' = None"
    by (simp add: store_only_def)
  have c: "es_map (emb_session written_table) ''emb'' \<noteq> None"
    by (simp add: emb_session_def)
  from inst b have kept: "StartSessionIfNecessary ?E ''emb'' (store_only written_table)
     = (Status INTERNAL ''Creating GradientDescentOptimizer failed.'', store_only written_table)"
    by blast
  from inst c have store: "es_map (snd (StartSessionIfNecessary ?E ''emb''
                      (emb_session written_table))) = es_map (emb_session written_table)"
    by blast
  have rest: "StartSessionIfNecessary ?E ''emb'' no_sessions
     = (Status INTERNAL ''Creating GradientDescentOptimizer failed.'', store_only_session)
   \<and> StartSession ?E \<lparr>name = ''emb'', config = BuildConfig 2 (1/10)\<rparr> no_sessions
     = (Status INTERNAL ''Creating GradientDescentOptimizer failed.'', None, store_only_session)
   \<and> Lookup ?E
        \<lparr>lookup_session_handle = ''emb'', lookup_key = [''first''], lookup_update = True\<rparr> no_sessions
     = (Status INTERNAL ''Creating GradientDescentOptimizer failed.'', Map.empty,
        store_only_session)
   \<and> Update ?E
        \<lparr>update_session_handle = ''emb'', update_values = [(''first'', [1, 2])],
         update_gradients = []\<rparr> no_sessions
     = (Status INTERNAL ''Creating GradientDescentOptimizer failed.'', store_only_session)
   \<and> KnowledgeBankSize store_only_session = 1
   \<and> StartSessionIfNecessary ?E ''emb'' store_only_session
     = (Status INTERNAL ''Creating GradientDescentOptimizer failed.'', store_only_session)"
    using inst a k0 by simp
  from rest k0 kept store show ?thesis by blast
qed

section \<open>Validation of an update request\<close>

lemma gradients_branch_code:
  "code (fst (gradients_branch E request s)) = OK \<or> code (fst (gradients_branch E request s)) = INTERNAL"
  by (auto simp: gradients_branch_def Let_def Status_OK_def split: option.splits prod.splits)

lemma Update_code_invalid_iff:
  "(code (fst (Update E request s)) = INVALID_ARGUMENT) =
     (update_session_handle request = [] \<or>
      (update_values request = [] \<and> update_gradients request = []))"
proof (cases "update_session_handle request = [] \<or>
      (update_values request = [] \<and> update_gradients request = [])")
  case True
  then show ?thesis by (auto simp: Update_def)
next
  case False
  obtain st s1 where ss: "StartSessionIfNecessary E (update_session_handle request) s = (st, s1)"
    by (cases "StartSessionIfNecessary E (update_session_handle request) s")
  have c1: "code st \<noteq> INVALID_ARGUMENT"
    using StartSessionIfNecessary_code [OF ss] by auto
  have c2: "code (fst (gradients_branch E request s2)) \<noteq> INVALID_ARGUMENT" for s2
    using gradients_branch_code [of E request s2] by auto
  show ?thesis
    using False ss c1 c2
    by (auto simp: Update_def Let_def ok_def Status_OK_def)
qed

text \<open>
  Claim C8. \<^verbatim>\<open>Update\<close> answers invalid-argument exactly when the handle is empty or
  both maps are empty, and then the service state is the one it was called with: no
  session was created and no store was written.
\<close>

theorem Update_validation:
  "(code (fst (Update E request s)) = INVALID_ARGUMENT) =
     (update_session_handle request = [] \<or>
      (update_values request = [] \<and> update_gradients request = []))
   \<and> (code (fst (Update E request s)) = INVALID_ARGUMENT \<longrightarrow> snd (Update E request s) = s)"
proof -
  have "snd (Update E request s) = s"
    if "update_session_handle request = [] \<or>
      (update_values request = [] \<and> update_gradients request = [])"
    using that by (auto simp: Update_def)
  then show ?thesis using Update_code_invalid_iff [of E request s] by blast
qed

theorem Update_validation_witness:
  "code (fst (Update test_env \<lparr>update_session_handle = ''emb'', update_values = [],
                               update_gradients = []\<rparr> no_sessions)) = INVALID_ARGUMENT
   \<and> snd (Update test_env \<lparr>update_session_handle = ''emb'', update_values = [],
                            update_gradients = []\<rparr> no_sessions) = no_sessions"
proof -
  have "update_session_handle \<lparr>update_session_handle = ''emb'', update_values = [],
                               update_gradients = []\<rparr> = [] \<or>
        (update_values \<lparr>update_session_handle = ''emb'', update_values = [],
                        update_gradients = []\<rparr> = [] \<and>
         update_gradients \<lparr>update_session_handle = ''emb'', update_values = [],
                           update_gradients = []\<rparr> = [])"
    by simp
  with Update_validation [of test_env "\<lparr>update_session_handle = ''emb'', update_values = [],
                               update_gradients = []\<rparr>" no_sessions]
  show ?thesis by blast
qed

section \<open>Partial results of a lookup\<close>

lemma kb_simps:
  "kb_BatchLookup kb [] = []"
  "kb_BatchLookup kb (k # ks) =
     (case kb_table kb k of None \<Rightarrow> Inr ''Data not found'' | Some v \<Rightarrow> Inl v)
       # kb_BatchLookup kb ks"
  by (simp_all add: kb_BatchLookup_def)

lemma fill_embedding_table_Some:
  "fill_embedding_table ks vs t k = Some v \<Longrightarrow> t k = Some v \<or> (k, Inl v) \<in> set (zip ks vs)"
  by (induction ks vs t rule: fill_embedding_table.induct)
     (auto split: sum.splits if_splits)

lemma fill_embedding_table_keeps:
  "t k \<noteq> None \<Longrightarrow> fill_embedding_table ks vs t k \<noteq> None"
  by (induction ks vs t rule: fill_embedding_table.induct)
     (auto split: sum.splits)

lemma fill_embedding_table_present:
  "(k, Inl v) \<in> set (zip ks vs) \<Longrightarrow> fill_embedding_table ks vs t k \<noteq> None"
proof (induction ks vs t rule: fill_embedding_table.induct)
  case (1 k' ks v' vs table)
  show ?case
  proof (cases "(k, Inl v) \<in> set (zip ks vs)")
    case True
    then show ?thesis using "1.IH" by simp
  next
    case False
    with "1.prems" have "k' = k" "v' = Inl v" by auto
    then show ?thesis
      using fill_embedding_table_keeps [of "table(k \<mapsto> v)" k ks vs] by simp
  qed
qed simp_all

text \<open>
  Claim C3. For a lookup with a non-empty handle and non-empty keys whose session step
  succeeded, the call answers the internal error exactly when the store returned a
  number of results other than the number of keys, and answers OK otherwise. In the
  returned table a key is absent exactly when no position of that key holds a vector,
  and every entry is a vector the store returned for that key: failed keys are left out
  and do not fail the call.
\<close>

theorem Lookup_partial_results:
  assumes "lookup_session_handle request \<noteq> []" and "lookup_key request \<noteq> []"
    and "StartSessionIfNecessary E (lookup_session_handle request) s = (st, s1)"
    and "ok st"
    and "es_map s1 (lookup_session_handle request) = Some kb"
    and "results = (if lookup_update request
                    then fst (BatchLookupWithUpdate E kb (lookup_key request))
                    else BatchLookup E kb (lookup_key request))"
    and "Lookup E request s = (status, table, s2)"
  shows "(code status = INTERNAL) = (length results \<noteq> length (lookup_key request))
    \<and> (code status = OK) = (length results = length (lookup_key request))
    \<and> (length results = length (lookup_key request) \<longrightarrow>
         (\<forall>k. (table k = None) = (\<forall>v. (k, Inl v) \<notin> set (zip (lookup_key request) results)))
       \<and> (\<forall>k v. table k = Some v \<longrightarrow> (k, Inl v) \<in> set (zip (lookup_key request) results)))"
proof (cases "length results = length (lookup_key request)")
  case False
  then have "status = Status INTERNAL ''Inconsistent result returned by BatchLookup()''"
    using assms
    by (auto simp: Lookup_def Let_def deref_def split: prod.splits if_splits)
  with False show ?thesis by simp
next
  case True
  then have st: "status = Status_OK"
    and tb: "table = fill_embedding_table (lookup_key request) results Map.empty"
    using assms
    by (auto simp: Lookup_def Let_def deref_def split: prod.splits if_splits)
  have a: "(table k = None) = (\<forall>v. (k, Inl v) \<notin> set (zip (lookup_key request) results))" for k
    using fill_embedding_table_Some [of "lookup_key request" results Map.empty k]
      fill_embedding_table_present [of k _ "lookup_key request" results Map.empty]
    unfolding tb by (cases "fill_embedding_table (lookup_key request) results Map.empty k") auto
  have b: "table k = Some v \<Longrightarrow> (k, Inl v) \<in> set (zip (lookup_key request) results)" for k v
    using fill_embedding_table_Some [of "lookup_key request" results Map.empty k v]
    unfolding tb by simp
  show ?thesis using True st a b by (simp add: Status_OK_def)
qed

theorem Lookup_partial_results_witness:
  "Lookup test_env \<lparr>lookup_session_handle = ''emb'', lookup_key = [''first'', ''second''],
                     lookup_update = False\<rparr> (emb_session [''first'' \<mapsto> [1, 2]])
     = (Status_OK, [''first'' \<mapsto> [1, 2]], emb_session [''first'' \<mapsto> [1, 2]])
   \<and> kb_BatchLookup \<lparr>kb_dimension = 2, kb_table = [''first'' \<mapsto> [1, 2]]\<rparr> [''first'', ''second'']
     = [Inl [1, 2], Inr ''Data not found'']
   \<and> ([''first'' \<mapsto> [1, 2::real]]) ''second'' = None"
proof -
  let ?req = "\<lparr>lookup_session_handle = ''emb'', lookup_key = [''first'', ''second''],
                     lookup_update = False\<rparr>"
  let ?s = "emb_session [''first'' \<mapsto> [1, 2]]"
  let ?kb = "\<lparr>kb_dimension = 2, kb_table = [''first'' \<mapsto> [1, 2]]\<rparr>"
  have h1: "lookup_session_handle ?req \<noteq> []" and h2: "lookup_key ?req \<noteq> []" by simp_all
  have h3: "StartSessionIfNecessary test_env (lookup_session_handle ?req) ?s = (Status_OK, ?s)"
    by (simp add: StartSessionIfNecessary_def fixture_defs)
  have h4: "ok Status_OK" by (simp add: fixture_defs)
  have h5: "es_map ?s (lookup_session_handle ?req) = Some ?kb" by (simp add: fixture_defs)
  have h6: "[Inl [1, 2], Inr ''Data not found''] =
      (if lookup_update ?req
                    then fst (BatchLookupWithUpdate test_env ?kb (lookup_key ?req))
                    else BatchLookup test_env ?kb (lookup_key ?req))"
    by (simp add: fixture_defs kb_simps)
  have h7: "Lookup test_env ?req ?s = (Status_OK, [''first'' \<mapsto> [1, 2]], ?s)"
    by (simp add: Lookup_def StartSessionIfNecessary_def fixture_defs deref_def kb_simps)
  have h8: "BatchLookup test_env = kb_BatchLookup" by (simp add: fixture_defs)
  have "([''first'' \<mapsto> [1, 2::real]]) ''second'' = None"
    using Lookup_partial_results [OF h1 h2 h3 h4 h5 h6 h7] by simp
  with h7 h6 h8 show ?thesis by simp
qed

section \<open>The gradient branch of an update\<close>

lemma collect_valid_filter:
  "collect_valid ks vs = map (\<lambda>(k, r). (k, projl r)) (filter (\<lambda>(k, r). isl r) (zip ks vs))"
  by (induction ks vs rule: collect_valid.induct) (auto split: sum.splits)

lemma length_collect_valid_le: "length (collect_valid ks vs) \<le> length vs"
  by (induction ks vs rule: collect_valid.induct) (auto split: sum.splits)

lemma length_collect_valid_less:
  "length ks = length vs \<Longrightarrow> \<exists>r\<in>set vs. \<not> isl r \<Longrightarrow> length (collect_valid ks vs) < length vs"
proof (induction ks vs rule: collect_valid.induct)
  case (1 k ks v vs)
  show ?case
  proof (cases v)
    case (Inl e)
    with 1 show ?thesis by auto
  next
    case (Inr err)
    then show ?thesis
      using length_collect_valid_le [of ks vs] by simp
  qed
qed simp_all

lemma collect_valid_position:
  "length ks = length vs \<Longrightarrow> j < length (collect_valid ks vs) \<Longrightarrow>
     \<exists>p. j \<le> p \<and> p < length ks \<and> fst (collect_valid ks vs ! j) = ks ! p
         \<and> ((\<exists>i\<le>j. \<not> isl (vs ! i)) \<longrightarrow> j < p)"
proof (induction ks vs arbitrary: j rule: collect_valid.induct)
  case (1 k ks v vs)
  show ?case
  proof (cases v)
    case (Inl e)
    show ?thesis
    proof (cases j)
      case 0
      with Inl show ?thesis by auto
    next
      case (Suc j')
      have len: "length ks = length vs" using "1.prems" by simp
      have j': "j' < length (collect_valid ks vs)" using "1.prems" Inl Suc by simp
      from "1.IH"(1) [OF Inl len j'] obtain p where p: "j' \<le> p" "p < length ks"
        "fst (collect_valid ks vs ! j') = ks ! p" "(\<exists>i\<le>j'. \<not> isl (vs ! i)) \<longrightarrow> j' < p"
        by blast
      have "(\<exists>i\<le>j. \<not> isl ((v # vs) ! i)) \<longrightarrow> (\<exists>i\<le>j'. \<not> isl (vs ! i))"
      proof
        assume "\<exists>i\<le>j. \<not> isl ((v # vs) ! i)"
        then obtain i where i: "i \<le> j" "\<not> isl ((v # vs) ! i)" by blast
        with Inl obtain i' where "i = Suc i'" by (cases i) auto
        with i Suc show "\<exists>i\<le>j'. \<not> isl (vs ! i)" by auto
      qed
      with p Suc Inl show ?thesis
        by (intro exI [of _ "Suc p"]) auto
    qed
  next
    case (Inr err)
    have len: "length ks = length vs" using "1.prems" by simp
    have j': "j < length (collect_valid ks vs)" using "1.prems" Inr by simp
    from "1.IH"(2) [OF Inr len j'] obtain p where p: "j \<le> p" "p < length ks"
      "fst (collect_valid ks vs ! j) = ks ! p"
      by blast
    with Inr show ?thesis
      by (intro exI [of _ "Suc p"]) auto
  qed
qed simp_all

lemma collect_valid_shifted:
  assumes "distinct ks" and "length ks = length vs"
    and "i < length vs" and "\<not> isl (vs ! i)" and "i \<le> j" and "j < length (collect_valid ks vs)"
  shows "fst (collect_valid ks vs ! j) \<noteq> ks ! j"
proof -
  obtain p where p: "j < p" "p < length ks" "fst (collect_valid ks vs ! j) = ks ! p"
    using collect_valid_position [OF assms(2,6)] assms(4,5) by blast
  then have "ks ! p \<noteq> ks ! j"
    using assms(1) by (simp add: nth_eq_iff_index_eq)
  with p show ?thesis by simp
qed

text \<open>
  Claim C1. In an update with gradients whose gradient branch reaches the optimizer,
  \<^verbatim>\<open>Apply\<close> receives the vectors of the valid keys only (the keys whose fetch holds a
  vector, in key order) together with the gradients of all keys, and the write-back puts
  the returned vectors under the valid keys. When a fetch failed, the vector list is
  shorter than the gradient list, and from the failed position on the vector at an index
  belongs to another key than the gradient at that index.
\<close>

theorem Update_gradients_alignment:
  assumes "update_session_handle request \<noteq> []" and "update_gradients request \<noteq> []"
    and "StartSessionIfNecessary E (update_session_handle request) s = (st, s1)" and "ok st"
    and "s2 = (if update_values request \<noteq> [] then values_branch E request s1 else s1)"
    and "gd_map s2 (update_session_handle request) = Some optimizer"
    and "es_map s2 (update_session_handle request) = Some kb"
    and "keys = map fst (update_gradients request)"
    and "fetched = BatchLookup E kb keys" and "length fetched = length keys"
    and "valid = map (\<lambda>(k, r). (k, projl r)) (filter (\<lambda>(k, r). isl r) (zip keys fetched))"
    and "valid \<noteq> []"
    and "Apply E optimizer (map snd valid) (map snd (update_gradients request))
           = ((updated, msg), optimizer')"
    and "s3 = s2\<lparr>gd_map := (gd_map s2)(update_session_handle request \<mapsto> optimizer')\<rparr>"
  shows "Update E request s =
          (if updated = []
           then (Status INTERNAL (''Applying gradient update returned error: '' @ msg), s3)
           else (Status_OK,
                 s3\<lparr>es_map := (es_map s3)
                       (update_session_handle request \<mapsto> BatchUpdate E kb (map fst valid) updated)\<rparr>))
    \<and> ((\<exists>r\<in>set fetched. \<not> isl r) \<longrightarrow>
          length (map snd valid) < length (map snd (update_gradients request)))
    \<and> (distinct keys \<longrightarrow>
          (\<forall>i j. i < length fetched \<and> \<not> isl (fetched ! i) \<and> i \<le> j \<and> j < length valid
                 \<longrightarrow> fst (valid ! j) \<noteq> keys ! j))"
proof -
  have v: "valid = collect_valid keys fetched"
    using assms(11) by (simp add: collect_valid_filter)
  have gb: "gradients_branch E request s2 =
          (if updated = []
           then (Status INTERNAL (''Applying gradient update returned error: '' @ msg), s3)
           else (Status_OK,
                 s3\<lparr>es_map := (es_map s3)
                       (update_session_handle request \<mapsto> BatchUpdate E kb (map fst valid) updated)\<rparr>))"
    using assms(6-10,12-14) v
    by (simp add: gradients_branch_def Let_def deref_def)
  have up: "Update E request s = gradients_branch E request s2"
    using assms(1-5) by (simp add: Update_def Let_def)
  have len: "length (map snd valid) < length (map snd (update_gradients request))"
    if "\<exists>r\<in>set fetched. \<not> isl r"
    using length_collect_valid_less [of keys fetched] that assms(8,10) v by simp
  have idx: "fst (valid ! j) \<noteq> keys ! j"
    if "distinct keys" and "i < length fetched" and "\<not> isl (fetched ! i)" and "i \<le> j"
      and "j < length valid" for i j
    using collect_valid_shifted [of keys fetched i j] that assms(10) v by simp
  have c1: "Update E request s =
          (if updated = []
           then (Status INTERNAL (''Applying gradient update returned error: '' @ msg), s3)
           else (Status_OK,
                 s3\<lparr>es_map := (es_map s3)
                       (update_session_handle request \<mapsto> BatchUpdate E kb (map fst valid) updated)\<rparr>))"
    using gb up by simp
  have c2: "(\<exists>r\<in>set fetched. \<not> isl r) \<longrightarrow>
          length (map snd valid) < length (map snd (update_gradients request))"
    using len by blast
  have c3: "distinct keys \<longrightarrow>
          (\<forall>i j. i < length fetched \<and> \<not> isl (fetched ! i) \<and> i \<le> j \<and> j < length valid
                 \<longrightarrow> fst (valid ! j) \<noteq> keys ! j)"
    using idx by blast
  from c1 c2 c3 show ?thesis by blast
qed

theorem Update_gradients_alignment_witness:
  "Update recording_env
      \<lparr>update_session_handle = ''emb'', update_values = [],
       update_gradients = [(''first'', [1, 2]), (''second'', [3, 4])]\<rparr>
      (recording_session [''second'' \<mapsto> [0, 0]] [])
     = (Status_OK, recording_session [''second'' \<mapsto> [0, 0]] [([[0, 0]], [[1, 2], [3, 4]])])
   \<and> length [[0, 0::real]] < length [[1, 2], [3, 4::real]]
   \<and> ''second'' \<noteq> ''first''"
proof -
  let ?req = "\<lparr>update_session_handle = ''emb'', update_values = [],
       update_gradients = [(''first'', [1, 2]), (''second'', [3, 4])]\<rparr>"
  let ?s = "recording_session [''second'' \<mapsto> [0, 0]] []"
  let ?kb = "\<lparr>kb_dimension = 2, kb_table = [''second'' \<mapsto> [0, 0]]\<rparr>"
  let ?fetched = "[Inr ''Data not found'', Inl [0, 0]] :: (EmbeddingVectorProto + string) list"
  have h1: "update_session_handle ?req \<noteq> []" and h2: "update_gradients ?req \<noteq> []"
    by simp_all
  have h3: "StartSessionIfNecessary recording_env (update_session_handle ?req) ?s
              = (Status_OK, ?s)"
    by (simp add: StartSessionIfNecessary_def fixture_defs)
  have h4: "ok Status_OK" by (simp add: fixture_defs)
  have h5: "?s = (if update_values ?req \<noteq> [] then values_branch recording_env ?req ?s else ?s)"
    by simp
  have h6: "gd_map ?s (update_session_handle ?req) = Some []"
    and h7: "es_map ?s (update_session_handle ?req) = Some ?kb"
    by (simp_all add: fixture_defs)
  have h8: "[''first'', ''second''] = map fst (update_gradients ?req)" by simp
  have h9: "?fetched = BatchLookup recording_env ?kb [''first'', ''second'']"
    by (simp add: fixture_defs kb_simps)
  have h10: "length ?fetched = length [''first'', ''second'']" by simp
  have h11: "[(''second'', [0, 0])] = map (\<lambda>(k, r). (k, projl r))
               (filter (\<lambda>(k, r). isl r) (zip [''first'', ''second''] ?fetched))"
    by simp
  have h12: "[(''second'', [0, 0::real])] \<noteq> []" by simp
  have h13: "Apply recording_env [] (map snd [(''second'', [0, 0])])
               (map snd (update_gradients ?req))
             = (([[0, 0]], []), [([[0, 0]], [[1, 2], [3, 4]])])"
    by (simp add: fixture_defs)
  note inst = Update_gradients_alignment [OF h1 h2 h3 h4 h5 h6 h7 h8 h9 h10 h11 h12 h13 refl]
  have a: "Update recording_env ?req ?s
     = (Status_OK, recording_session [''second'' \<mapsto> [0, 0]] [([[0, 0]], [[1, 2], [3, 4]])])"
    using inst [THEN conjunct1]
    by (simp add: fixture_defs kb_BatchUpdate_def)
  have "\<exists>r\<in>set ?fetched. \<not> isl r" by simp
  with inst have b: "length (map snd [(''second'', [0, 0::real])])
                       < length (map snd (update_gradients ?req))"
    by blast
  have "distinct [''first'', ''second''] \<and> 0 < length ?fetched \<and> \<not> isl (?fetched ! 0)
          \<and> (0::nat) \<le> 0 \<and> 0 < length [(''second'', [0, 0::real])]"
    by simp
  with inst have c: "fst ([(''second'', [0, 0::real])] ! 0) \<noteq> [''first'', ''second''] ! 0"
    by blast
  from a b c show ?thesis by simp
qed

section \<open>No rollback of the values branch\<close>

lemma gradients_branch_failure:
  "code (fst (gradients_branch E request s)) \<noteq> OK \<Longrightarrow>
     es_map (snd (gradients_branch E request s)) = es_map s"
  by (auto simp: gradients_branch_def Let_def Status_OK_def split: option.splits prod.splits if_splits)

text \<open>
  Claim C9. In an update with both values and gradients whose session step succeeded,
  when the call answers an internal error (no optimizer, a result-count mismatch, no
  valid key, or a failed \<^verbatim>\<open>Apply\<close>), the session's store is the one the values
  branch wrote: the overwrite stays.
\<close>

theorem Update_values_not_rolled_back:
  assumes "update_session_handle request \<noteq> []"
    and "update_values request \<noteq> []" and "update_gradients request \<noteq> []"
    and "StartSessionIfNecessary E (update_session_handle request) s = (st, s1)" and "ok st"
    and "es_map s1 (update_session_handle request) = Some kb"
    and "Update E request s = (status, s')" and "code status = INTERNAL"
  shows "es_map s' (update_session_handle request)
           = Some (BatchUpdate E kb (map fst (update_values request))
                                    (map snd (update_values request)))"
proof -
  have up: "Update E request s = gradients_branch E request (values_branch E request s1)"
    using assms(1-5) by (simp add: Update_def Let_def)
  have gb: "gradients_branch E request (values_branch E request s1) = (status, s')"
    using up assms(7) by simp
  have "code (fst (gradients_branch E request (values_branch E request s1))) \<noteq> OK"
    using assms(8) by (simp add: gb)
  then have "es_map (snd (gradients_branch E request (values_branch E request s1)))
               = es_map (values_branch E request s1)"
    by (rule gradients_branch_failure)
  then have "es_map s' = es_map (values_branch E request s1)"
    by (simp add: gb)
  then show ?thesis
    using assms(6) by (simp add: values_branch_def Let_def deref_def)
qed

theorem Update_values_not_rolled_back_witness:
  "Update test_env
      \<lparr>update_session_handle = ''emb'', update_values = [(''first'', [1, 2])],
       update_gradients = [(''second'', [1, 1])]\<rparr> (emb_session [''first'' \<mapsto> [0, 0]])
     = (Status INTERNAL ''No valid keys for gradient update.'', emb_session [''first'' \<mapsto> [1, 2]])
   \<and> es_map (emb_session [''first'' \<mapsto> [1, 2]]) ''emb''
     = Some (kb_BatchUpdate \<lparr>kb_dimension = 2, kb_table = [''first'' \<mapsto> [0, 0]]\<rparr>
               [''first''] [[1, 2]])"
proof -
  let ?req = "\<lparr>update_session_handle = ''emb'', update_values = [(''first'', [1, 2])],
       update_gradients = [(''second'', [1, 1])]\<rparr>"
  let ?s = "emb_session [''first'' \<mapsto> [0, 0]]"
  have h1: "update_session_handle ?req \<noteq> []" and h2: "update_values ?req \<noteq> []"
    and h3: "update_gradients ?req \<noteq> []" by simp_all
  have h4: "StartSessionIfNecessary test_env (update_session_handle ?req) ?s = (Status_OK, ?s)"
    by (simp add: StartSessionIfNecessary_def fixture_defs)
  have h5: "ok Status_OK" by (simp add: fixture_defs)
  have h6: "es_map ?s (update_session_handle ?req)
              = Some \<lparr>kb_dimension = 2, kb_table = [''first'' \<mapsto> [0, 0]]\<rparr>"
    by (simp add: fixture_defs)
  have h7: "Update test_env ?req ?s
     = (Status INTERNAL ''No valid keys for gradient update.'', emb_session [''first'' \<mapsto> [1, 2]])"
    by (simp add: Update_def StartSessionIfNecessary_def values_branch_def gradients_branch_def
        fixture_defs deref_def kb_simps kb_BatchUpdate_def)
  have h8: "code (Status INTERNAL ''No valid keys for gradient update.'') = INTERNAL" by simp
  have h9: "BatchUpdate test_env = kb_BatchUpdate" by (simp add: fixture_defs)
  have "es_map (emb_session [''first'' \<mapsto> [1, 2]]) (update_session_handle ?req)
          = Some (BatchUpdate test_env \<lparr>kb_dimension = 2, kb_table = [''first'' \<mapsto> [0, 0]]\<rparr>
                    (map fst (update_values ?req)) (map snd (update_values ?req)))"
    by (rule Update_values_not_rolled_back [OF h1 h2 h3 h4 h5 h6 h7 h8])
  then have "es_map (emb_session [''first'' \<mapsto> [1, 2]]) ''emb''
     = Some (kb_BatchUpdate \<lparr>kb_dimension = 2, kb_table = [''first'' \<mapsto> [0, 0]]\<rparr>
               [''first''] [[1, 2]])"
    by (simp add: h9)
  with h7 show ?thesis by (rule conjI)
qed

section \<open>The batch manager: validation of an update\<close>

lemma upt_small: "[0..<3] = [0, 1, 2]" "[0..<4] = [0, 1, 2, 3]"
  by code_simp+

lemma rows_small:
  "rows 3 2 [a, b, c, d, e, f] = [[a, b], [c, d], [e, f]]"
  "rows 4 2 [a, b, c, d, e, f, g, h] = [[a, b], [c, d], [e, f], [g, h]]"
  by (simp_all add: rows_def upt_small)

lemma decimal_digits:
  "decimal 2 = ''2''" "decimal 3 = ''3''" "decimal 4 = ''4''"
  by (simp_all add: decimal.simps digit_char_def)

text \<open>
  Claim C6. \<^verbatim>\<open>UpdateValues\<close> rejects, in this order and without reaching the
  service: an empty key batch with \<^verbatim>\<open>Input key is empty.\<close>; a key count other than
  the number of vectors with \<^verbatim>\<open>Inconsistent keys size and values size: n v.s. m\<close>; a
  trailing axis other than the configured dimension with
  \<^verbatim>\<open>Inconsistent embedding dimension, got d expect e\<close>. The witness runs the three
  calls of the test and obtains its three literal messages.
\<close>

theorem UpdateValues_invalid_inputs:
  "(NumElements keys = 0 \<longrightarrow>
      dem_UpdateValues E m keys vals s = (Status INVALID_ARGUMENT ''Input key is empty.'', s))
   \<and> (NumElements keys \<noteq> 0 \<and> NumElements keys \<noteq> outer_count vals \<longrightarrow>
      dem_UpdateValues E m keys vals s =
        (Status INVALID_ARGUMENT
           (''Inconsistent keys size and values size: '' @ decimal (NumElements keys) @
            '' v.s. '' @ decimal (outer_count vals)), s))
   \<and> (NumElements keys \<noteq> 0 \<and> NumElements keys = outer_count vals \<and>
      int (trailing_dim vals) \<noteq> embedding_dimension (dem_config m) \<longrightarrow>
      dem_UpdateValues E m keys vals s =
        (Status INVALID_ARGUMENT
           (''Inconsistent embedding dimension, got '' @ decimal (trailing_dim vals) @
            '' expect '' @ signed_decimal (embedding_dimension (dem_config m))), s))"
  by (simp add: dem_UpdateValues_def validate_batch_def)

theorem UpdateValues_invalid_inputs_witness:
  "dem_UpdateValues test_env emb_manager \<lparr>shape = [0], flat = []\<rparr> \<lparr>shape = [0], flat = []\<rparr>
      (emb_session Map.empty)
     = (Status INVALID_ARGUMENT ''Input key is empty.'', emb_session Map.empty)
   \<and> dem_UpdateValues test_env emb_manager \<lparr>shape = [3], flat = [[], [], []]\<rparr>
        \<lparr>shape = [2, 2], flat = [0, 0, 0, 0]\<rparr> (emb_session Map.empty)
     = (Status INVALID_ARGUMENT ''Inconsistent keys size and values size: 3 v.s. 2'',
        emb_session Map.empty)
   \<and> dem_UpdateValues test_env emb_manager \<lparr>shape = [3], flat = [[], [], []]\<rparr>
        \<lparr>shape = [3, 4], flat = [0, 0, 0, 0, 0, 0, 0, 0, 0, 0, 0, 0]\<rparr> (emb_session Map.empty)
     = (Status INVALID_ARGUMENT ''Inconsistent embedding dimension, got 4 expect 2'',
        emb_session Map.empty)"
proof -
  let ?k0 = "\<lparr>shape = [0], flat = []\<rparr> :: string Tensor"
  let ?v0 = "\<lparr>shape = [0], flat = []\<rparr> :: real Tensor"
  let ?k3 = "\<lparr>shape = [3], flat = [[], [], []]\<rparr> :: string Tensor"
  let ?v22 = "\<lparr>shape = [2, 2], flat = [0, 0, 0, 0]\<rparr> :: real Tensor"
  let ?v34 = "\<lparr>shape = [3, 4], flat = [0, 0, 0, 0, 0, 0, 0, 0, 0, 0, 0, 0]\<rparr> :: real Tensor"
  let ?s = "emb_session Map.empty"
  have a: "NumElements ?k0 = 0" by (simp add: NumElements_def)
  have b: "NumElements ?k3 \<noteq> 0 \<and> NumElements ?k3 \<noteq> outer_count ?v22"
    by (simp add: NumElements_def outer_count_def)
  have c: "NumElements ?k3 \<noteq> 0 \<and> NumElements ?k3 = outer_count ?v34 \<and>
      int (trailing_dim ?v34) \<noteq> embedding_dimension (dem_config emb_manager)"
    by (simp add: NumElements_def outer_count_def trailing_dim_def fixture_defs)
  have n: "NumElements ?k3 = 3" "outer_count ?v22 = 2" "trailing_dim ?v34 = 4"
    "embedding_dimension (dem_config emb_manager) = 2"
    by (simp_all add: NumElements_def outer_count_def trailing_dim_def fixture_defs)
  have i: "signed_decimal 2 = ''2''"
    by (simp add: signed_decimal_def decimal_digits)
  have r1: "dem_UpdateValues test_env emb_manager ?k0 ?v0 ?s
     = (Status INVALID_ARGUMENT ''Input key is empty.'', ?s)"
    using UpdateValues_invalid_inputs [of ?k0 test_env emb_manager ?v0 ?s] a by blast
  have r2: "dem_UpdateValues test_env emb_manager ?k3 ?v22 ?s
     = (Status INVALID_ARGUMENT ''Inconsistent keys size and values size: 3 v.s. 2'', ?s)"
    using UpdateValues_invalid_inputs [of ?k3 test_env emb_manager ?v22 ?s] b
    by (simp add: n decimal_digits)
  have r3: "dem_UpdateValues test_env emb_manager ?k3 ?v34 ?s
     = (Status INVALID_ARGUMENT ''Inconsistent embedding dimension, got 4 expect 2'', ?s)"
    using UpdateValues_invalid_inputs [of ?k3 test_env emb_manager ?v34 ?s] c
    by (simp add: n i decimal_digits)
  from r1 r2 r3 show ?thesis by blast
qed

section \<open>The batch manager: the empty key and unwritten keys\<close>

lemma fill_embedding_table_map:
  "fill_embedding_table ks (map (\<lambda>k. case g k of None \<Rightarrow> Inr e | Some v \<Rightarrow> Inl v) ks) t k
     = (if k \<in> set ks \<and> g k \<noteq> None then g k else t k)"
  by (induction ks arbitrary: t) (auto split: option.splits)

lemma kb_BatchLookupWithUpdate_fst:
  "fst (kb_BatchLookupWithUpdate kb ks)
     = map (\<lambda>k. Inl (case kb_table kb k of None \<Rightarrow> zero_vector (kb_dimension kb) | Some v \<Rightarrow> v)) ks"
proof (induction ks arbitrary: kb)
  case Nil
  show ?case by simp
next
  case (Cons k ks)
  show ?case
  proof (cases "kb_table kb k")
    case (Some v)
    with Cons [of kb] show ?thesis
      by (cases "kb_BatchLookupWithUpdate kb ks") simp
  next
    case None
    let ?kb = "kb\<lparr>kb_table := (kb_table kb)(k \<mapsto> zero_vector (kb_dimension kb))\<rparr>"
    have "(case kb_table ?kb k' of None \<Rightarrow> zero_vector (kb_dimension ?kb) | Some v \<Rightarrow> v)
        = (case kb_table kb k' of None \<Rightarrow> zero_vector (kb_dimension kb) | Some v \<Rightarrow> v)" for k'
      using None by (simp split: option.splits)
    with Cons [of ?kb] None show ?thesis
      by (cases "kb_BatchLookupWithUpdate ?kb ks") simp
  qed
qed




lemma lookup_table_resolved:
  assumes "results = map (\<lambda>k. case g k of None \<Rightarrow> Inr e | Some v \<Rightarrow> Inl v) ks"
    and "\<And>k. g k = None \<Longrightarrow> z k = zero_vector d"
    and "\<And>k v. g k = Some v \<Longrightarrow> z k = v"
  shows "map (resolve d (fill_embedding_table ks results Map.empty)) ks
           = map (\<lambda>k. if k = [] then zero_vector d else z k) ks"
proof (rule map_cong [OF refl])
  fix k assume "k \<in> set ks"
  then have "fill_embedding_table ks results Map.empty k = g k"
    unfolding assms(1) fill_embedding_table_map by auto
  then show "resolve d (fill_embedding_table ks results Map.empty) k
               = (if k = [] then zero_vector d else z k)"
    using assms(2,3) by (cases "g k") (auto simp: resolve_def)
qed

lemma dem_Lookup_resolved:
  assumes "BatchLookup E = kb_BatchLookup"
    and "BatchLookupWithUpdate E = kb_BatchLookupWithUpdate"
    and "h = dem_session_handle m" and "h \<noteq> []"
    and "StartSessionIfNecessary E h s = (Status_OK, s)"
    and "es_map s h = Some kb"
    and "d = embedding_dimension (dem_config m)" and "kb_dimension kb = d"
    and k: "NumElements keys \<noteq> 0 \<and> length (flat keys) = NumElements keys"
  shows "\<exists>s'. dem_Lookup E m keys upd s =
               (Status_OK,
                Some \<lparr>shape = shape keys @ [nat d],
                      flat = concat (map (\<lambda>k. if k = [] then zero_vector d
                                              else case kb_table kb k of
                                                     None \<Rightarrow> zero_vector d
                                                   | Some v \<Rightarrow> v) (flat keys))\<rparr>,
                s')"
proof -
  from k have nonempty: "flat keys \<noteq> []" by auto
  let ?z = "\<lambda>k. case kb_table kb k of None \<Rightarrow> zero_vector d | Some v \<Rightarrow> v"
  let ?out = "\<lambda>table. \<lparr>shape = shape keys @ [nat d],
                       flat = concat (map (resolve d table) (flat keys))\<rparr>"
  note ops = assms(1,2)
  show ?thesis
  proof (cases upd)
    case False
    let ?results = "kb_BatchLookup kb (flat keys)"
    have r: "map (resolve d (fill_embedding_table (flat keys) ?results Map.empty)) (flat keys)
           = map (\<lambda>k. if k = [] then zero_vector d else ?z k) (flat keys)"
      by (rule lookup_table_resolved [where g = "kb_table kb" and e = "''Data not found''"])
         (simp_all add: kb_BatchLookup_def)
    have "dem_Lookup E m keys upd s
            = (Status_OK, Some (?out (fill_embedding_table (flat keys) ?results Map.empty)),
               s\<lparr>es_map := (es_map s)(h \<mapsto> kb)\<rparr>)"
      using False k nonempty assms(3-7) ops
      by (simp add: dem_Lookup_def Lookup_def Let_def deref_def ok_def Status_OK_def
            kb_BatchLookup_def)
    then show ?thesis unfolding r by blast
  next
    case True
    obtain results kb2 where bl: "kb_BatchLookupWithUpdate kb (flat keys) = (results, kb2)"
      by (cases "kb_BatchLookupWithUpdate kb (flat keys)")
    have res: "results = map (\<lambda>k. case Some (?z k) of None \<Rightarrow> Inr [] | Some v \<Rightarrow> Inl v) (flat keys)"
      using assms(8) kb_BatchLookupWithUpdate_fst [of kb "flat keys"] bl
      by (simp split: option.splits)
    have r: "map (resolve d (fill_embedding_table (flat keys) results Map.empty)) (flat keys)
           = map (\<lambda>k. if k = [] then zero_vector d else ?z k) (flat keys)"
      by (rule lookup_table_resolved [OF res]) simp_all
    have len: "length results = length (flat keys)"
      unfolding res by simp
    have "dem_Lookup E m keys upd s
            = (Status_OK, Some (?out (fill_embedding_table (flat keys) results Map.empty)),
               s\<lparr>es_map := (es_map s)(h \<mapsto> kb2)\<rparr>)"
      using True nonempty assms(3-7) ops len bl
      by (simp add: dem_Lookup_def Lookup_def Let_def deref_def ok_def Status_OK_def k)
    then show ?thesis unfolding r by blast
  qed
qed



section \<open>The batch manager: export and import\<close>

lemma session_step_unchanged:
  assumes "StartSessionIfNecessary E h s = (Status_OK, s)"
  shows "es_map s h \<noteq> None"
  using StartSessionIfNecessary_ok_es_map [OF assms] by (simp add: ok_def Status_OK_def)

lemma UpdateValues_session_state:
  assumes "StartSessionIfNecessary E (dem_session_handle m) s = (Status_OK, s)"
    and "dem_UpdateValues E m keys vals s = (status, s2)"
  shows "\<exists>kb'. s2 = s\<lparr>es_map := (es_map s)(dem_session_handle m \<mapsto> kb')\<rparr>"
proof -
  obtain kb where kb: "es_map s (dem_session_handle m) = Some kb"
    using session_step_unchanged [OF assms(1)] by auto
  then have same: "s = s\<lparr>es_map := (es_map s)(dem_session_handle m \<mapsto> kb)\<rparr>"
    by (simp add: map_upd_triv)
  show ?thesis
  proof (cases "s2 = s")
    case True
    with same show ?thesis by metis
  next
    case False
    then show ?thesis
      using assms
      by (auto simp: dem_UpdateValues_def Update_def values_branch_def Let_def
            ok_def Status_OK_def split: option.splits if_splits)
  qed
qed

text \<open>
  Claim C4. For a manager whose session exists, with a store of the configured
  dimension: \<^verbatim>\<open>Export\<close> succeeds and returns
  \<^verbatim>\<open>{directory}/{name}/embedding_store_meta_data.pbtxt\<close>; after any
  \<^verbatim>\<open>UpdateValues\<close>, \<^verbatim>\<open>Import\<close> of that path succeeds and gives back the service
  state of export time; and a lookup without update then succeeds and returns, position
  by position, the vectors the store held at export time (the zero vector for the
  empty-string key and for a key it did not hold), as it did before the overwrite.
\<close>

theorem Export_Import_round_trip:
  assumes "E = carls ser par cr ap"
    and "h = dem_session_handle m" and "h \<noteq> []"
    and "StartSessionIfNecessary E h s = (Status_OK, s)"
    and "es_map s h = Some kb"
    and "d = embedding_dimension (dem_config m)" and "kb_dimension kb = d"
    and "path = export_path directory (dem_name m)"
    and "dem_Export m directory (s, fs) = (status1, exported, s1, fs1)"
    and "dem_UpdateValues E m keys vals s1 = (status2, s2)"
    and "dem_Import m path (s2, fs1) = (status3, s3, fs3)"
    and "NumElements keys' \<noteq> 0 \<and> length (flat keys') = NumElements keys'"
  shows "status1 = Status_OK \<and> exported = Some path
    \<and> path = directory @ ''/'' @ dem_name m @ ''/embedding_store_meta_data.pbtxt''
    \<and> status3 = Status_OK \<and> s3 = s
    \<and> dem_Lookup E m keys' False s3 = dem_Lookup E m keys' False s
    \<and> (\<exists>s4. dem_Lookup E m keys' False s3 =
               (Status_OK,
                Some \<lparr>shape = shape keys' @ [nat d],
                      flat = concat (map (\<lambda>k. if k = [] then zero_vector d
                                              else case kb_table kb k of
                                                     None \<Rightarrow> zero_vector d
                                                   | Some v \<Rightarrow> v) (flat keys'))\<rparr>,
                s4))"
proof -
  have session: "StartSessionIfNecessary E (dem_session_handle m) s = (Status_OK, s)"
    using assms(2,4) by simp
  have kb: "es_map s (dem_session_handle m) = Some kb"
    using assms(2,5) by simp
  have ex: "status1 = Status_OK" "exported = Some path" "s1 = s"
    "fs1 = fs(path \<mapsto> (kb, gd_map s (dem_session_handle m)))"
    using assms(8,9) kb by (auto simp: dem_Export_def Let_def)
  obtain kb' where s2: "s2 = s\<lparr>es_map := (es_map s)(dem_session_handle m \<mapsto> kb')\<rparr>"
    using UpdateValues_session_state [OF session] assms(10) ex(3) by blast
  have im: "status3 = Status_OK"
    "s3 = s2\<lparr>es_map := (es_map s2)(dem_session_handle m \<mapsto> kb),
             gd_map := (gd_map s2)(dem_session_handle m := gd_map s (dem_session_handle m))\<rparr>"
    using assms(11) ex(4) by (auto simp: dem_Import_def)
  have restored: "s3 = s"
    unfolding im(2) s2 using kb by (simp add: map_upd_triv)
  have ops: "BatchLookup E = kb_BatchLookup"
    "BatchLookupWithUpdate E = kb_BatchLookupWithUpdate"
    using assms(1) by (simp_all add: carls_def)
  have looked: "\<exists>s4. dem_Lookup E m keys' False s =
               (Status_OK,
                Some \<lparr>shape = shape keys' @ [nat d],
                      flat = concat (map (\<lambda>k. if k = [] then zero_vector d
                                              else case kb_table kb k of
                                                     None \<Rightarrow> zero_vector d
                                                   | Some v \<Rightarrow> v) (flat keys'))\<rparr>,
                s4)"
    by (rule dem_Lookup_resolved [OF ops assms(2-7,12)])
  have path: "path = directory @ ''/'' @ dem_name m @ ''/embedding_store_meta_data.pbtxt''"
    using assms(8) by (simp add: export_path_def)
  from ex(1,2) path im(1) restored looked show ?thesis
    by simp
qed

theorem Export_Import_round_trip_witness:
  "dem_Export emb_manager ''/tmp'' (emb_session written_table, Map.empty)
     = (Status_OK, Some ''/tmp/emb/embedding_store_meta_data.pbtxt'',
        emb_session written_table,
        [''/tmp/emb/embedding_store_meta_data.pbtxt'' \<mapsto>
           (\<lparr>kb_dimension = 2, kb_table = written_table\<rparr>, Some [])])
   \<and> dem_UpdateValues test_env emb_manager keys_1D grads_1D (emb_session written_table)
     = (Status_OK, emb_session overwritten_table)
   \<and> fst (snd (dem_Lookup test_env emb_manager keys_1D False (emb_session overwritten_table)))
     = Some \<lparr>shape = [3, 2], flat = [1, 2, 3, 4, 5, 6]\<rparr>
   \<and> dem_Import emb_manager ''/tmp/emb/embedding_store_meta_data.pbtxt''
        (emb_session overwritten_table,
         [''/tmp/emb/embedding_store_meta_data.pbtxt'' \<mapsto>
           (\<lparr>kb_dimension = 2, kb_table = written_table\<rparr>, Some [])])
     = (Status_OK, emb_session written_table,
        [''/tmp/emb/embedding_store_meta_data.pbtxt'' \<mapsto>
           (\<lparr>kb_dimension = 2, kb_table = written_table\<rparr>, Some [])])
   \<and> fst (snd (dem_Lookup test_env emb_manager keys_1D False (emb_session written_table)))
     = Some \<lparr>shape = [3, 2], flat = [0, 1, 2, 3, 4, 5]\<rparr>"
proof -
  let ?fs = "[''/tmp/emb/embedding_store_meta_data.pbtxt'' \<mapsto>
           (\<lparr>kb_dimension = 2, kb_table = written_table\<rparr>, Some ([] :: calls))]"
  let ?s = "emb_session written_table"
  let ?s2 = "emb_session overwritten_table"
  have h1: "test_env = carls name (\<lambda>h. \<lparr>name = h, config = BuildConfig 2 (1 / 10)\<rparr>)
                (\<lambda>d gdc. Some [])
                (\<lambda>calls variables gradients. ((variables, []), calls @ [(variables, gradients)]))"
    by (simp add: test_env_def fixture_def)
  have h2: "''emb'' = dem_session_handle emb_manager" by (simp add: emb_manager_def)
  have h3: "''emb'' \<noteq> []" by simp
  have h4: "StartSessionIfNecessary test_env ''emb'' ?s = (Status_OK, ?s)"
    by (simp add: StartSessionIfNecessary_def fixture_defs)
  have h5: "es_map ?s ''emb'' = Some \<lparr>kb_dimension = 2, kb_table = written_table\<rparr>"
    by (simp add: emb_session_def)
  have h6: "2 = embedding_dimension (dem_config emb_manager)"
    by (simp add: emb_manager_def BuildConfig_def)
  have h7: "kb_dimension \<lparr>kb_dimension = 2, kb_table = written_table\<rparr> = 2" by simp
  have h8: "''/tmp/emb/embedding_store_meta_data.pbtxt''
              = export_path ''/tmp'' (dem_name emb_manager)"
    by (simp add: export_path_def emb_manager_def)
  have h9: "dem_Export emb_manager ''/tmp'' (?s, Map.empty)
     = (Status_OK, Some ''/tmp/emb/embedding_store_meta_data.pbtxt'', ?s, ?fs)"
    by (simp add: dem_Export_def export_path_def emb_manager_def emb_session_def Let_def)
  have h10: "dem_UpdateValues test_env emb_manager keys_1D grads_1D ?s = (Status_OK, ?s2)"
    by (simp add: dem_UpdateValues_def validate_batch_def Update_def StartSessionIfNecessary_def
       values_branch_def fixture_defs written_table_def overwritten_table_def rows_small
       NumElements_def outer_count_def trailing_dim_def deref_def kb_BatchUpdate_def)
  have h11: "dem_Import emb_manager ''/tmp/emb/embedding_store_meta_data.pbtxt'' (?s2, ?fs)
     = (Status_OK, ?s, ?fs)"
    by (simp add: dem_Import_def emb_session_def emb_manager_def)
  have h12: "NumElements keys_1D \<noteq> 0 \<and> length (flat keys_1D) = NumElements keys_1D"
    by (simp add: NumElements_def keys_1D_def)
  note inst = Export_Import_round_trip [OF h1 h2 h3 h4 h5 h6 h7 h8 h9 h10 h11 h12]
  from inst obtain s4 where "dem_Lookup test_env emb_manager keys_1D False ?s =
     (Status_OK,
      Some \<lparr>shape = shape keys_1D @ [nat 2],
            flat = concat (map (\<lambda>k. if k = [] then zero_vector 2
                                    else case kb_table
                                                \<lparr>kb_dimension = 2,
                                                 kb_table = written_table\<rparr> k of
                                           None \<Rightarrow> zero_vector 2
                                         | Some v \<Rightarrow> v) (flat keys_1D))\<rparr>, s4)"
    by blast
  then have after: "fst (snd (dem_Lookup test_env emb_manager keys_1D False ?s))
      = Some \<lparr>shape = [3, 2], flat = [0, 1, 2, 3, 4, 5]\<rparr>"
    by (simp add: keys_1D_def written_table_def zero_vector_def numeral_2_eq_2)
  have before: "fst (snd (dem_Lookup test_env emb_manager keys_1D False ?s2))
      = Some \<lparr>shape = [3, 2], flat = [1, 2, 3, 4, 5, 6]\<rparr>"
    by (simp add: dem_Lookup_def Lookup_def StartSessionIfNecessary_def fixture_defs
       overwritten_table_def NumElements_def deref_def resolve_def kb_simps)
  from h9 h10 before h11 after show ?thesis by blast
qed

end
